theory Spec2Isabelle
  imports Main
begin

section \<open>Data model (schema.ts)\<close>

text \<open>
  The tables of schema.ts, one record per row type, every field prefixed with its table.
  A nullable column is an \<open>option\<close>. Identifiers are the varchar keys of the schema;
  timestamps are natural numbers. The values the database engine fills in by itself
  (\<open>gen_random_uuid()\<close>, \<open>defaultNow()\<close>) and \<open>new Date()\<close> are arguments of the
  operations. Only the columns the modelled handlers read or write are kept. An
  \<open>integer\<close> column holds 32 bits; the rows are typed with \<open>int\<close> and the range is
  checked where a row is written.
\<close>

type_synonym ident = string
type_synonym timestamp = nat

datatype user_role = Role_patient | Role_doctor | Role_admin

datatype alert_severity = Low | Medium | High | Critical

record user =
  user_id :: ident
  user_firstName :: "string option"
  user_lastName :: "string option"
  user_role :: user_role
  user_mobileNumber :: "string option"

record patient =
  patient_id :: ident
  patient_userId :: ident
  patient_doctorId :: "ident option"

record ecg_reading =
  reading_id :: ident
  reading_patientId :: ident
  reading_heartRate :: int
  reading_rhythm :: "string option"
  reading_ecgData :: string
  reading_timestamp :: timestamp
  reading_isNormal :: bool
  reading_alertTriggered :: bool

record health_alert =
  alert_id :: ident
  alert_patientId :: ident
  alert_ecgReadingId :: "ident option"
  alert_alertType :: string
  alert_severity :: alert_severity
  alert_message :: string
  alert_isResolved :: bool
  alert_resolvedBy :: "ident option"
  alert_resolvedAt :: "timestamp option"
  alert_createdAt :: timestamp

record alert_settings =
  settings_patientId :: ident
  settings_highHeartRateThreshold :: "int option"
  settings_lowHeartRateThreshold :: "int option"
  settings_enableIrregularRhythmAlerts :: "bool option"
  settings_enableWhatsAppAlerts :: "bool option"
  settings_enableSmsAlerts :: "bool option"

text \<open>The value objects handed to the two insert operations (InsertEcgReading, InsertHealthAlert).\<close>

record insert_ecg_reading =
  ins_reading_patientId :: ident
  ins_reading_heartRate :: int
  ins_reading_rhythm :: string
  ins_reading_ecgData :: string
  ins_reading_isNormal :: bool
  ins_reading_alertTriggered :: bool

record insert_health_alert =
  ins_alert_patientId :: ident
  ins_alert_ecgReadingId :: ident
  ins_alert_alertType :: string
  ins_alert_severity :: alert_severity
  ins_alert_message :: string

text \<open>
  The request body of the submission endpoint. The heart rate is an integer and the
  waveform an opaque text, both present; the rhythm and the device identifier may be
  absent (\<open>None\<close> is JavaScript's \<open>undefined\<close>).
\<close>

record submission =
  sub_patientId :: ident
  sub_heartRate :: int
  sub_rhythm :: "string option"
  sub_ecgData :: string
  sub_deviceId :: "string option"

text \<open>
  A WebSocket object is a handle (a number); its \<open>readyState\<close> is read from the server
  state. The text pushed to a socket is kept structured: the alert, the patient id and
  the display name.
\<close>

type_synonym socket = nat

datatype ready_state = CONNECTING | OPEN | CLOSING | CLOSED

record push_message =
  push_alert :: health_alert
  push_patient_id :: ident
  push_patient_name :: string

text \<open>
  The server state: the five tables as lists of rows in insertion order, the module-level
  map \<open>wsClients\<close>, the sockets' ready states, and two logs: the texts sent on sockets
  and the calls of \<open>sendNotifications\<close> (alert id, patient id).
\<close>

record state =
  users :: "user list"
  patients :: "patient list"
  ecgReadings :: "ecg_reading list"
  healthAlerts :: "health_alert list"
  alertSettings :: "alert_settings list"
  wsClients :: "ident \<rightharpoonup> socket"
  readyState :: "socket \<Rightarrow> ready_state"
  sent :: "(socket \<times> push_message) list"
  notified :: "(ident \<times> ident) list"

datatype response =
    Json_success
  | Json_success_reading ecg_reading
  | Status_message nat string

section \<open>JavaScript values\<close>

text \<open>
  \<open>x || d\<close> yields \<open>d\<close> when \<open>x\<close> is falsy: \<open>undefined\<close>, \<open>null\<close>, the number 0, the
  empty string, \<open>false\<close>.
\<close>

definition truthy_string :: "string option \<Rightarrow> bool" where
  "truthy_string x = (case x of None \<Rightarrow> False | Some s \<Rightarrow> s \<noteq> [])"

definition truthy_bool :: "bool option \<Rightarrow> bool" where
  "truthy_bool x = (case x of None \<Rightarrow> False | Some b \<Rightarrow> b)"

definition or_number :: "int option \<Rightarrow> int \<Rightarrow> int" where
  "or_number x d = (case x of None \<Rightarrow> d | Some n \<Rightarrow> if n = 0 then d else n)"

definition or_string :: "string option \<Rightarrow> string \<Rightarrow> string" where
  "or_string x d = (case x of None \<Rightarrow> d | Some s \<Rightarrow> if s = [] then d else s)"

text \<open>Template literals: a number in decimal, \<open>undefined\<close> and \<open>null\<close> by their names.\<close>

definition digit_char :: "nat \<Rightarrow> char" where
  "digit_char d = ''0123456789'' ! (d mod 10)"

fun string_of_nat :: "nat \<Rightarrow> string" where
  "string_of_nat n = (if n < 10 then [digit_char n] else string_of_nat (n div 10) @ [digit_char n])"

declare string_of_nat.simps [simp del]

definition string_of_int :: "int \<Rightarrow> string" where
  "string_of_int i = (if i < 0 then CHR ''-'' # string_of_nat (nat (- i)) else string_of_nat (nat i))"

definition string_of_undefined :: "string option \<Rightarrow> string" where
  "string_of_undefined x = (case x of None \<Rightarrow> ''undefined'' | Some s \<Rightarrow> s)"

definition string_of_null :: "string option \<Rightarrow> string" where
  "string_of_null x = (case x of None \<Rightarrow> ''null'' | Some s \<Rightarrow> s)"

text \<open>
  \<open>String.prototype.replace\<close> with a one-character string pattern replaces the first
  occurrence only. \<open>toUpperCase\<close> is modelled on the Latin letters.
\<close>

fun replace :: "char \<Rightarrow> char \<Rightarrow> string \<Rightarrow> string" where
  "replace a b [] = []"
| "replace a b (c # cs) = (if c = a then b # cs else c # replace a b cs)"

definition toUpperCase_char :: "char \<Rightarrow> char" where
  "toUpperCase_char c =
     (case map_of (zip ''abcdefghijklmnopqrstuvwxyz'' ''ABCDEFGHIJKLMNOPQRSTUVWXYZ'') c of
        None \<Rightarrow> c | Some u \<Rightarrow> u)"

definition toUpperCase :: "string \<Rightarrow> string" where
  "toUpperCase s = map toUpperCase_char s"

section \<open>Storage (storage.ts)\<close>

text \<open>
  \<open>const [row] = await db.select()...\<close> takes the first row of the result, or
  \<open>undefined\<close> when there is none.

  A statement that violates the schema is rejected by the engine and the promise
  rejects; the write operations return the error or the result. Two kinds of violation
  can be reached: a heart rate outside the 32-bit \<open>integer\<close> column, and a foreign key
  (\<open>patient_id\<close>, \<open>ecg_reading_id\<close>, \<open>resolved_by\<close>) that names no row. The
  identifier that \<open>gen_random_uuid()\<close> generates is taken to be new to its table. Other
  failures of the engine (a lost connection) are not modelled.
\<close>

datatype db_error = Integer_out_of_range | Foreign_key_violation

definition fits_integer :: "int \<Rightarrow> bool" where
  "fits_integer n = (- 2147483648 \<le> n \<and> n \<le> 2147483647)"

definition first_row :: "'a list \<Rightarrow> 'a option" where
  "first_row rows = (case rows of [] \<Rightarrow> None | r # _ \<Rightarrow> Some r)"

definition getUser :: "state \<Rightarrow> ident \<Rightarrow> user option" where
  "getUser st uid = first_row (filter (\<lambda>u. user_id u = uid) (users st))"

definition getPatientWithUser :: "state \<Rightarrow> ident \<Rightarrow> (patient \<times> user) option" where
  "getPatientWithUser st patientId =
     first_row (concat (map (\<lambda>p. map (\<lambda>u. (p, u))
                                   (filter (\<lambda>u. patient_userId p = user_id u) (users st)))
                            (filter (\<lambda>p. patient_id p = patientId) (patients st))))"

text \<open>The row an insert returns: the values handed in, the generated id, the defaults.\<close>

definition ecg_reading_row :: "ident \<Rightarrow> timestamp \<Rightarrow> insert_ecg_reading \<Rightarrow> ecg_reading" where
  "ecg_reading_row newId now reading =
     \<lparr> reading_id = newId,
       reading_patientId = ins_reading_patientId reading,
       reading_heartRate = ins_reading_heartRate reading,
       reading_rhythm = Some (ins_reading_rhythm reading),
       reading_ecgData = ins_reading_ecgData reading,
       reading_timestamp = now,
       reading_isNormal = ins_reading_isNormal reading,
       reading_alertTriggered = ins_reading_alertTriggered reading \<rparr>"

definition health_alert_row :: "ident \<Rightarrow> timestamp \<Rightarrow> insert_health_alert \<Rightarrow> health_alert" where
  "health_alert_row newId now alert =
     \<lparr> alert_id = newId,
       alert_patientId = ins_alert_patientId alert,
       alert_ecgReadingId = Some (ins_alert_ecgReadingId alert),
       alert_alertType = ins_alert_alertType alert,
       alert_severity = ins_alert_severity alert,
       alert_message = ins_alert_message alert,
       alert_isResolved = False,
       alert_resolvedBy = None,
       alert_resolvedAt = None,
       alert_createdAt = now \<rparr>"

definition createEcgReading ::
  "ident \<Rightarrow> timestamp \<Rightarrow> insert_ecg_reading \<Rightarrow> state \<Rightarrow> db_error + ecg_reading \<times> state" where
  "createEcgReading newId now reading st =
     (if fits_integer (ins_reading_heartRate reading)
      then if ins_reading_patientId reading \<in> set (map patient_id (patients st))
           then let newReading = ecg_reading_row newId now reading
                in Inr (newReading, st\<lparr> ecgReadings := ecgReadings st @ [newReading] \<rparr>)
           else Inl Foreign_key_violation
      else Inl Integer_out_of_range)"

definition createHealthAlert ::
  "ident \<Rightarrow> timestamp \<Rightarrow> insert_health_alert \<Rightarrow> state \<Rightarrow> db_error + health_alert \<times> state" where
  "createHealthAlert newId now alert st =
     (if ins_alert_patientId alert \<in> set (map patient_id (patients st))
      then if ins_alert_ecgReadingId alert \<in> set (map reading_id (ecgReadings st))
           then let newAlert = health_alert_row newId now alert
                in Inr (newAlert, st\<lparr> healthAlerts := healthAlerts st @ [newAlert] \<rparr>)
           else Inl Foreign_key_violation
      else Inl Foreign_key_violation)"

text \<open>
  \<open>markAlertAsResolved\<close> is one UPDATE ... WHERE id = alertId: every row with that id
  is rewritten; a table without such a row is left as it is and the promise resolves.
  When a row matches and \<open>resolvedBy\<close> is the id of no user, the foreign key rejects the
  statement and no row changes.
\<close>

definition markAlertAsResolved :: "timestamp \<Rightarrow> ident \<Rightarrow> ident \<Rightarrow> state \<Rightarrow> db_error + state" where
  "markAlertAsResolved now alertId resolvedBy st =
     (if alertId \<in> set (map alert_id (healthAlerts st))
         \<and> resolvedBy \<notin> set (map user_id (users st))
      then Inl Foreign_key_violation
      else Inr (st\<lparr> healthAlerts :=
                     map (\<lambda>a. if alert_id a = alertId
                              then a\<lparr> alert_isResolved := True,
                                      alert_resolvedBy := Some resolvedBy,
                                      alert_resolvedAt := Some now \<rparr>
                              else a)
                         (healthAlerts st) \<rparr>))"

definition getAlertSettingsByPatientId :: "state \<Rightarrow> ident \<Rightarrow> alert_settings option" where
  "getAlertSettingsByPatientId st patientId =
     first_row (filter (\<lambda>s. settings_patientId s = patientId) (alertSettings st))"

section \<open>Live connections (wss connection handler, broadcastAlert)\<close>

text \<open>
  A connection with a truthy \<open>userId\<close> is stored in \<open>wsClients\<close> and gets a close and
  an error handler, both of which delete the entry of that \<open>userId\<close>. A connection
  without one gets no handler.
\<close>

definition ws_connection :: "socket \<Rightarrow> string option \<Rightarrow> state \<Rightarrow> state" where
  "ws_connection ws userId st =
     (case userId of
        None \<Rightarrow> st
      | Some u \<Rightarrow> if u \<noteq> [] then st\<lparr> wsClients := (wsClients st)(u \<mapsto> ws) \<rparr> else st)"

definition ws_close :: "socket \<Rightarrow> string option \<Rightarrow> state \<Rightarrow> state" where
  "ws_close ws userId st =
     (case userId of
        None \<Rightarrow> st
      | Some u \<Rightarrow> if u \<noteq> [] then st\<lparr> wsClients := (wsClients st)(u := None) \<rparr> else st)"

definition ws_error :: "socket \<Rightarrow> string option \<Rightarrow> state \<Rightarrow> state" where
  "ws_error ws userId st =
     (case userId of
        None \<Rightarrow> st
      | Some u \<Rightarrow> if u \<noteq> [] then st\<lparr> wsClients := (wsClients st)(u := None) \<rparr> else st)"

definition send_if_open :: "socket option \<Rightarrow> push_message \<Rightarrow> state \<Rightarrow> state" where
  "send_if_open ws message st =
     (case ws of
        None \<Rightarrow> st
      | Some w \<Rightarrow> if readyState st w = OPEN then st\<lparr> sent := sent st @ [(w, message)] \<rparr> else st)"

definition broadcastAlert :: "health_alert \<Rightarrow> patient \<times> user \<Rightarrow> state \<Rightarrow> state" where
  "broadcastAlert alert patient st =
     (let message = \<lparr> push_alert = alert,
                      push_patient_id = patient_id (fst patient),
                      push_patient_name = string_of_null (user_firstName (snd patient)) @ '' ''
                                          @ string_of_null (user_lastName (snd patient)) \<rparr>;
          st1 = send_if_open (wsClients st (patient_userId (fst patient))) message st
      in if truthy_string (patient_doctorId (fst patient))
         then (case patient_doctorId (fst patient) of
                 None \<Rightarrow> st1
               | Some d \<Rightarrow> send_if_open (wsClients st1 d) message st1)
         else st1)"

text \<open>\<open>sendNotifications\<close> only logs; the call is recorded.\<close>

definition sendNotifications :: "patient \<times> user \<Rightarrow> health_alert \<Rightarrow> state \<Rightarrow> state" where
  "sendNotifications patient alert st =
     st\<lparr> notified := notified st @ [(alert_id alert, patient_id (fst patient))] \<rparr>"

section \<open>The submission handler (POST /api/ecg/submit)\<close>

text \<open>
  The block of the handler that picks the alert type and the severity: two variables
  initialised to \<open>abnormal_reading\<close> and \<open>medium\<close>, overwritten by the first branch
  of the chain that fires.
\<close>

definition alert_decision ::
  "int \<Rightarrow> string option \<Rightarrow> alert_settings option \<Rightarrow> string \<times> alert_severity" where
  "alert_decision heartRate rhythm settings =
     (let alertType = ''abnormal_reading'';
          severity = Medium
      in if heartRate > or_number (case settings of None \<Rightarrow> None
                                   | Some s \<Rightarrow> settings_highHeartRateThreshold s) 120
         then (''high_heart_rate'', if heartRate > 140 then Critical else High)
         else if heartRate < or_number (case settings of None \<Rightarrow> None
                                        | Some s \<Rightarrow> settings_lowHeartRateThreshold s) 50
         then (''low_heart_rate'', if heartRate < 40 then Critical else High)
         else if rhythm \<noteq> Some ''normal''
         then (''irregular_rhythm'', High)
         else (alertType, severity))"

definition alert_message_template :: "string \<Rightarrow> int \<Rightarrow> string option \<Rightarrow> string" where
  "alert_message_template alertType heartRate rhythm =
     toUpperCase (replace CHR ''_'' CHR '' '' alertType) @ '': Heart rate ''
     @ string_of_int heartRate @ '' BPM, Rhythm: '' @ string_of_undefined rhythm"

definition notifications_enabled :: "alert_settings option \<Rightarrow> bool" where
  "notifications_enabled settings =
     (case settings of
        None \<Rightarrow> False
      | Some s \<Rightarrow> truthy_bool (settings_enableWhatsAppAlerts s)
                  \<or> truthy_bool (settings_enableSmsAlerts s))"

text \<open>
  The handler. A rejected insert is caught and answered with status 500; what was written
  before it stays written.
\<close>

definition ecg_submit ::
  "ident \<Rightarrow> ident \<Rightarrow> timestamp \<Rightarrow> submission \<Rightarrow> state \<Rightarrow> response \<times> state" where
  "ecg_submit newReadingId newAlertId now body st =
     (let patientId = sub_patientId body;
          heartRate = sub_heartRate body;
          rhythm = sub_rhythm body;
          ecgData = sub_ecgData body
      in case getPatientWithUser st patientId of
           None \<Rightarrow> (Status_message 404 ''Patient not found'', st)
         | Some patient \<Rightarrow>
             let isNormal = (heartRate \<ge> 50 \<and> heartRate \<le> 120 \<and> rhythm = Some ''normal'')
             in case createEcgReading newReadingId now
                       \<lparr> ins_reading_patientId = patientId,
                         ins_reading_heartRate = heartRate,
                         ins_reading_rhythm = or_string rhythm ''normal'',
                         ins_reading_ecgData = ecgData,
                         ins_reading_isNormal = isNormal,
                         ins_reading_alertTriggered = (\<not> isNormal) \<rparr> st of
                  Inl error \<Rightarrow> (Status_message 500 ''Failed to submit ECG data'', st)
                | Inr (reading, st1) \<Rightarrow>
                    if \<not> isNormal
                    then
                      let settings = getAlertSettingsByPatientId st1 patientId;
                          (alertType, severity) = alert_decision heartRate rhythm settings
                      in case createHealthAlert newAlertId now
                                \<lparr> ins_alert_patientId = patientId,
                                  ins_alert_ecgReadingId = reading_id reading,
                                  ins_alert_alertType = alertType,
                                  ins_alert_severity = severity,
                                  ins_alert_message =
                                    alert_message_template alertType heartRate rhythm \<rparr> st1 of
                           Inl error \<Rightarrow> (Status_message 500 ''Failed to submit ECG data'', st1)
                         | Inr (alert, st2) \<Rightarrow>
                             let st3 = (if notifications_enabled settings
                                        then sendNotifications patient alert st2 else st2)
                             in (Json_success_reading reading, broadcastAlert alert patient st3)
                    else (Json_success_reading reading, st1))"

section \<open>The resolution handler (PATCH /api/doctor/alerts/:alertId/resolve)\<close>

text \<open>
  The caller is the already authenticated subject \<open>sub\<close>; the handler looks the user up,
  rejects every role but doctor, runs the update and acknowledges. A rejected update is
  caught and answered with status 500.
\<close>

definition resolve_alert :: "timestamp \<Rightarrow> ident \<Rightarrow> ident \<Rightarrow> state \<Rightarrow> response \<times> state" where
  "resolve_alert now sub alertId st =
     (case getUser st sub of
        None \<Rightarrow> (Status_message 403 ''Doctor access required'', st)
      | Some u \<Rightarrow>
          if user_role u \<noteq> Role_doctor
          then (Status_message 403 ''Doctor access required'', st)
          else (case markAlertAsResolved now alertId (user_id u) st of
                  Inl error \<Rightarrow> (Status_message 500 ''Failed to resolve alert'', st)
                | Inr st1 \<Rightarrow> (Json_success, st1)))"

section \<open>The decision policy in the words of the specification\<close>

text \<open>
  Section 4.1 of the specification, as a function of the heart rate, the rhythm and the
  two thresholds in force: the first rule that matches decides. It is compared with
  \<open>alert_decision\<close>, the chain of the handler.
\<close>

definition first_match_policy :: "int \<Rightarrow> string option \<Rightarrow> int \<Rightarrow> int \<Rightarrow> string \<times> alert_severity" where
  "first_match_policy heartRate rhythm high low =
     (if heartRate > high then (''high_heart_rate'', if heartRate > 140 then Critical else High)
      else if heartRate < low then (''low_heart_rate'', if heartRate < 40 then Critical else High)
      else if rhythm \<noteq> Some ''normal'' then (''irregular_rhythm'', High)
      else (''abnormal_reading'', Medium))"

section \<open>A concrete server state\<close>

text \<open>
  One patient (Ann Lee, user u1, patient p1, no doctor assigned, no settings row), two
  doctors (users u2 and u3), one unresolved alert a0, and an open socket registered
  for u1.
\<close>

definition example_user :: user where
  "example_user = \<lparr> user_id = ''u1'', user_firstName = Some ''Ann'', user_lastName = Some ''Lee'',
                     user_role = Role_patient, user_mobileNumber = None \<rparr>"

definition example_doctor :: user where
  "example_doctor = \<lparr> user_id = ''u2'', user_firstName = Some ''Bo'', user_lastName = None,
                       user_role = Role_doctor, user_mobileNumber = None \<rparr>"

definition example_doctor2 :: user where
  "example_doctor2 = \<lparr> user_id = ''u3'', user_firstName = Some ''Cy'', user_lastName = Some ''Roe'',
                        user_role = Role_doctor, user_mobileNumber = None \<rparr>"

definition example_patient :: patient where
  "example_patient = \<lparr> patient_id = ''p1'', patient_userId = ''u1'', patient_doctorId = None \<rparr>"

definition example_alert :: health_alert where
  "example_alert = \<lparr> alert_id = ''a0'', alert_patientId = ''p1'', alert_ecgReadingId = None,
                      alert_alertType = ''irregular_rhythm'', alert_severity = High,
                      alert_message = ''IRREGULAR RHYTHM: Heart rate 90 BPM, Rhythm: afib'',
                      alert_isResolved = False, alert_resolvedBy = None,
                      alert_resolvedAt = None, alert_createdAt = 1 \<rparr>"

definition example_state :: state where
  "example_state =
     \<lparr> users = [example_user, example_doctor, example_doctor2],
       patients = [example_patient],
       ecgReadings = [],
       healthAlerts = [example_alert],
       alertSettings = [],
       wsClients = Map.empty(''u1'' \<mapsto> 1),
       readyState = (\<lambda>w. OPEN),
       sent = [],
       notified = [] \<rparr>"

definition example_submission :: "int \<Rightarrow> string option \<Rightarrow> submission" where
  "example_submission heartRate rhythm =
     \<lparr> sub_patientId = ''p1'', sub_heartRate = heartRate, sub_rhythm = rhythm,
       sub_ecgData = ''[]'', sub_deviceId = None \<rparr>"

text \<open>The same state with a settings row for p1 whose two thresholds are stored as 0.\<close>

definition example_state_zero :: state where
  "example_state_zero =
     example_state\<lparr> alertSettings :=
       [\<lparr> settings_patientId = ''p1'',
          settings_highHeartRateThreshold = Some 0,
          settings_lowHeartRateThreshold = Some 0,
          settings_enableIrregularRhythmAlerts = Some True,
          settings_enableWhatsAppAlerts = Some True,
          settings_enableSmsAlerts = Some True \<rparr>] \<rparr>"

section \<open>Facts about the concrete states and the lookups\<close>

lemma example_getPatientWithUser:
  "getPatientWithUser example_state ''p1'' = Some (example_patient, example_user)"
  by (simp add: getPatientWithUser_def example_state_def first_row_def example_patient_def
      example_user_def example_doctor_def example_doctor2_def)

lemma example_zero_getPatientWithUser:
  "getPatientWithUser example_state_zero ''p1'' = Some (example_patient, example_user)"
  by (simp add: getPatientWithUser_def example_state_zero_def example_state_def first_row_def
      example_patient_def example_user_def example_doctor_def example_doctor2_def)

lemma example_getAlertSettings:
  "getAlertSettingsByPatientId example_state pid = None"
  by (simp add: getAlertSettingsByPatientId_def example_state_def first_row_def)

lemma example_getUser_doctor: "getUser example_state ''u2'' = Some example_doctor"
  by (simp add: getUser_def example_state_def first_row_def example_user_def example_doctor_def)

lemma broadcastAlert_alerts [simp]:
  "healthAlerts (broadcastAlert a p st) = healthAlerts st"
  by (simp add: broadcastAlert_def send_if_open_def Let_def split: option.splits)

lemma broadcastAlert_readings [simp]:
  "ecgReadings (broadcastAlert a p st) = ecgReadings st"
  by (simp add: broadcastAlert_def send_if_open_def Let_def split: option.splits)

lemma first_row_filter:
  "first_row (filter P xs) = Some x \<Longrightarrow> x \<in> set xs \<and> P x"
proof -
  assume "first_row (filter P xs) = Some x"
  then obtain ys where "filter P xs = x # ys"
    by (auto simp add: first_row_def split: list.splits)
  then have "x \<in> set (filter P xs)" by simp
  then show ?thesis by simp
qed

lemma getUser_row:
  "getUser st uid = Some u \<Longrightarrow> user_id u \<in> set (map user_id (users st))"
  by (auto simp add: getUser_def dest: first_row_filter)

lemma getPatientWithUser_no_row:
  "patientId \<notin> patient_id ` set (patients st) \<Longrightarrow> getPatientWithUser st patientId = None"
proof -
  assume "patientId \<notin> patient_id ` set (patients st)"
  then have "filter (\<lambda>p. patient_id p = patientId) (patients st) = []"
    by (auto simp add: filter_empty_conv)
  then show ?thesis by (simp add: getPatientWithUser_def first_row_def)
qed

lemma getPatientWithUser_row:
  assumes "getPatientWithUser st patientId = Some p"
  shows "patientId \<in> set (map patient_id (patients st))"
proof (rule ccontr)
  assume "patientId \<notin> set (map patient_id (patients st))"
  then have "getPatientWithUser st patientId = None"
    by (simp add: getPatientWithUser_no_row)
  with assms show False by simp
qed

section \<open>The outcomes of a submission\<close>

text \<open>
  For an existing patient the insert of the reading is accepted exactly when the heart
  rate fits the column. A heart rate outside it is answered with status 500 and nothing
  is written; otherwise the handler takes the normal or the abnormal path.
\<close>

lemma createEcgReading_accepted:
  assumes "fits_integer (ins_reading_heartRate reading)"
    and "ins_reading_patientId reading \<in> set (map patient_id (patients st))"
  shows "createEcgReading newId now reading st =
           Inr (ecg_reading_row newId now reading,
                st\<lparr> ecgReadings := ecgReadings st @ [ecg_reading_row newId now reading] \<rparr>)"
  using assms by (simp add: createEcgReading_def Let_def)

lemma createEcgReading_rejected:
  assumes "\<not> fits_integer (ins_reading_heartRate reading)"
  shows "createEcgReading newId now reading st = Inl Integer_out_of_range"
  using assms by (simp add: createEcgReading_def)

lemma ecg_submit_out_of_range:
  assumes "getPatientWithUser st (sub_patientId body) = Some p"
    and "\<not> fits_integer (sub_heartRate body)"
  shows "ecg_submit rid aid now body st = (Status_message 500 ''Failed to submit ECG data'', st)"
  using assms by (simp add: ecg_submit_def Let_def createEcgReading_rejected)

lemma ecg_submit_normal:
  assumes "getPatientWithUser st (sub_patientId body) = Some p"
    and "50 \<le> sub_heartRate body \<and> sub_heartRate body \<le> 120 \<and> sub_rhythm body = Some ''normal''"
  shows "ecg_submit rid aid now body st =
     (let reading = ecg_reading_row rid now
                      \<lparr> ins_reading_patientId = sub_patientId body,
                        ins_reading_heartRate = sub_heartRate body,
                        ins_reading_rhythm = ''normal'',
                        ins_reading_ecgData = sub_ecgData body,
                        ins_reading_isNormal = True,
                        ins_reading_alertTriggered = False \<rparr>
      in (Json_success_reading reading, st\<lparr> ecgReadings := ecgReadings st @ [reading] \<rparr>))"
proof -
  have fits: "fits_integer (sub_heartRate body)"
    using assms(2) by (simp add: fits_integer_def)
  have row: "sub_patientId body \<in> set (map patient_id (patients st))"
    using assms(1) by (rule getPatientWithUser_row)
  show ?thesis
    using assms fits row
    by (simp add: ecg_submit_def Let_def createEcgReading_accepted or_string_def)
qed

lemma ecg_submit_abnormal:
  assumes "getPatientWithUser st (sub_patientId body) = Some p"
    and "\<not> (50 \<le> sub_heartRate body \<and> sub_heartRate body \<le> 120 \<and> sub_rhythm body = Some ''normal'')"
    and "fits_integer (sub_heartRate body)"
  shows "ecg_submit rid aid now body st =
     (let reading = ecg_reading_row rid now
                      \<lparr> ins_reading_patientId = sub_patientId body,
                        ins_reading_heartRate = sub_heartRate body,
                        ins_reading_rhythm = or_string (sub_rhythm body) ''normal'',
                        ins_reading_ecgData = sub_ecgData body,
                        ins_reading_isNormal = False,
                        ins_reading_alertTriggered = True \<rparr>;
          settings = getAlertSettingsByPatientId st (sub_patientId body);
          d = alert_decision (sub_heartRate body) (sub_rhythm body) settings;
          alert = health_alert_row aid now
                    \<lparr> ins_alert_patientId = sub_patientId body,
                      ins_alert_ecgReadingId = rid,
                      ins_alert_alertType = fst d,
                      ins_alert_severity = snd d,
                      ins_alert_message =
                        alert_message_template (fst d) (sub_heartRate body) (sub_rhythm body) \<rparr>;
          st2 = st\<lparr> ecgReadings := ecgReadings st @ [reading],
                    healthAlerts := healthAlerts st @ [alert] \<rparr>
      in (Json_success_reading reading,
          broadcastAlert alert p
            (if notifications_enabled settings then sendNotifications p alert st2 else st2)))"
proof -
  have n: "(50 \<le> sub_heartRate body \<and> sub_heartRate body \<le> 120
            \<and> sub_rhythm body = Some ''normal'') = False"
    using assms(2) by blast
  have row: "sub_patientId body \<in> set (map patient_id (patients st))"
    using assms(1) by (rule getPatientWithUser_row)
  then have row': "sub_patientId body \<in> patient_id ` set (patients st)"
    by simp
  show ?thesis
    using assms(1,3) row'
    by (simp add: ecg_submit_def Let_def case_prod_beta createEcgReading_def createHealthAlert_def
        getAlertSettingsByPatientId_def ecg_reading_row_def n)
qed

lemma submit_alert_is_decision:
  assumes "getPatientWithUser st (sub_patientId body) = Some p"
    and "\<not> (50 \<le> sub_heartRate body \<and> sub_heartRate body \<le> 120 \<and> sub_rhythm body = Some ''normal'')"
    and "fits_integer (sub_heartRate body)"
  shows "\<exists>a. healthAlerts (snd (ecg_submit rid aid now body st)) = healthAlerts st @ [a]
           \<and> (alert_alertType a, alert_severity a) =
               alert_decision (sub_heartRate body) (sub_rhythm body)
                 (getAlertSettingsByPatientId st (sub_patientId body))"
  unfolding ecg_submit_abnormal [OF assms]
  by (simp add: Let_def health_alert_row_def sendNotifications_def)

lemma alert_decision_policy:
  "alert_decision heartRate rhythm settings =
     first_match_policy heartRate rhythm
       (case settings of
          None \<Rightarrow> 120
        | Some s \<Rightarrow> (case settings_highHeartRateThreshold s of
                       None \<Rightarrow> 120 | Some t \<Rightarrow> if t = 0 then 120 else t))
       (case settings of
          None \<Rightarrow> 50
        | Some s \<Rightarrow> (case settings_lowHeartRateThreshold s of
                       None \<Rightarrow> 50 | Some t \<Rightarrow> if t = 0 then 50 else t))"
  by (simp add: alert_decision_def first_match_policy_def or_number_def Let_def
      split: option.splits)

section \<open>Alert type and severity\<close>




text \<open>
  Claim C10. When the patient has a settings row, the comparison of an abnormal submission
  (with a heart rate that fits the 32-bit column, so that the reading is persisted) uses
  the stored threshold only if it is present and not 0; a stored 0 (or null) is replaced
  by the default, 120 for the high and 50 for the low threshold. In the witness both
  thresholds are stored as 0 and a heart rate of 45 is a low heart rate: it is compared
  with 120 and 50, not with 0.
\<close>

theorem stored_zero_threshold_is_default:
  assumes "getPatientWithUser st (sub_patientId body) = Some p"
    and "\<not> (50 \<le> sub_heartRate body \<and> sub_heartRate body \<le> 120 \<and> sub_rhythm body = Some ''normal'')"
    and "fits_integer (sub_heartRate body)"
    and "getAlertSettingsByPatientId st (sub_patientId body) = Some s"
  shows "\<exists>a. healthAlerts (snd (ecg_submit rid aid now body st)) = healthAlerts st @ [a]
           \<and> (alert_alertType a, alert_severity a) =
               first_match_policy (sub_heartRate body) (sub_rhythm body)
                 (if settings_highHeartRateThreshold s = None
                     \<or> settings_highHeartRateThreshold s = Some 0
                  then 120 else the (settings_highHeartRateThreshold s))
                 (if settings_lowHeartRateThreshold s = None
                     \<or> settings_lowHeartRateThreshold s = Some 0
                  then 50 else the (settings_lowHeartRateThreshold s))"
proof -
  have "alert_decision (sub_heartRate body) (sub_rhythm body) (Some s) =
          first_match_policy (sub_heartRate body) (sub_rhythm body)
                 (if settings_highHeartRateThreshold s = None
                     \<or> settings_highHeartRateThreshold s = Some 0
                  then 120 else the (settings_highHeartRateThreshold s))
                 (if settings_lowHeartRateThreshold s = None
                     \<or> settings_lowHeartRateThreshold s = Some 0
                  then 50 else the (settings_lowHeartRateThreshold s))"
    by (auto simp add: alert_decision_policy split: option.splits)
  with submit_alert_is_decision [OF assms(1,2,3), of rid aid now] assms(4)
  show ?thesis by simp
qed

theorem stored_zero_threshold_is_default_witness:
  "getPatientWithUser example_state_zero (sub_patientId (example_submission 45 (Some ''normal'')))
     = Some (example_patient, example_user)
   \<and> \<not> (50 \<le> sub_heartRate (example_submission 45 (Some ''normal''))
         \<and> sub_heartRate (example_submission 45 (Some ''normal'')) \<le> 120
         \<and> sub_rhythm (example_submission 45 (Some ''normal'')) = Some ''normal'')
   \<and> fits_integer (sub_heartRate (example_submission 45 (Some ''normal'')))
   \<and> map settings_highHeartRateThreshold (alertSettings example_state_zero) = [Some 0]
   \<and> map settings_lowHeartRateThreshold (alertSettings example_state_zero) = [Some 0]
   \<and> (\<exists>a. healthAlerts (snd (ecg_submit ''r1'' ''a1'' 7 (example_submission 45 (Some ''normal''))
                                example_state_zero)) = [example_alert, a]
          \<and> (alert_alertType a, alert_severity a) = (''low_heart_rate'', High))"
proof -
  let ?s = "\<lparr> settings_patientId = ''p1'',
          settings_highHeartRateThreshold = Some 0,
          settings_lowHeartRateThreshold = Some 0,
          settings_enableIrregularRhythmAlerts = Some True,
          settings_enableWhatsAppAlerts = Some True,
          settings_enableSmsAlerts = Some True \<rparr>"
  have h1: "getPatientWithUser example_state_zero
              (sub_patientId (example_submission 45 (Some ''normal'')))
     = Some (example_patient, example_user)"
    by (simp add: example_submission_def example_zero_getPatientWithUser)
  have h2: "\<not> (50 \<le> sub_heartRate (example_submission 45 (Some ''normal''))
         \<and> sub_heartRate (example_submission 45 (Some ''normal'')) \<le> 120
         \<and> sub_rhythm (example_submission 45 (Some ''normal'')) = Some ''normal'')"
    by (simp add: example_submission_def)
  have h3: "fits_integer (sub_heartRate (example_submission 45 (Some ''normal'')))"
    by (simp add: example_submission_def fits_integer_def)
  have h4: "getAlertSettingsByPatientId example_state_zero
              (sub_patientId (example_submission 45 (Some ''normal''))) = Some ?s"
    by (simp add: getAlertSettingsByPatientId_def example_state_zero_def first_row_def
        example_submission_def)
  have st: "healthAlerts example_state_zero = [example_alert]"
    "map settings_highHeartRateThreshold (alertSettings example_state_zero) = [Some 0]"
    "map settings_lowHeartRateThreshold (alertSettings example_state_zero) = [Some 0]"
    by (simp_all add: example_state_zero_def example_state_def)
  have sub: "sub_heartRate (example_submission 45 (Some ''normal'')) = 45"
    "sub_rhythm (example_submission 45 (Some ''normal'')) = Some ''normal''"
    by (simp_all add: example_submission_def)
  have pol: "first_match_policy 45 (Some ''normal'') 120 50 = (''low_heart_rate'', High)"
    by (simp add: first_match_policy_def)
  from stored_zero_threshold_is_default [OF h1 h2 h3 h4, of "''r1''" "''a1''" 7]
  have "\<exists>a. healthAlerts (snd (ecg_submit ''r1'' ''a1'' 7 (example_submission 45 (Some ''normal''))
                                example_state_zero)) = [example_alert, a]
          \<and> (alert_alertType a, alert_severity a) = (''low_heart_rate'', High)"
    by (simp add: sub st pol)
  with h1 h2 h3 st(2,3) show ?thesis by (intro conjI)
qed

text \<open>
  Claim C3, as stated: with default settings and rhythm normal, a heart rate of 150 is a
  high heart rate of severity high. The handler gives severity critical, since 150 is
  above 140.
\<close>

theorem heart_rate_150_not_high:
  "alert_alertType (last (healthAlerts (snd (ecg_submit ''r1'' ''a1'' 7
       (example_submission 150 (Some ''normal'')) example_state)))) = ''high_heart_rate''
   \<and> alert_severity (last (healthAlerts (snd (ecg_submit ''r1'' ''a1'' 7
       (example_submission 150 (Some ''normal'')) example_state)))) = Critical
   \<and> alert_severity (last (healthAlerts (snd (ecg_submit ''r1'' ''a1'' 7
       (example_submission 150 (Some ''normal'')) example_state)))) \<noteq> High"
proof -
  have h1: "getPatientWithUser example_state (sub_patientId (example_submission 150 (Some ''normal'')))
     = Some (example_patient, example_user)"
    by (simp add: example_submission_def example_getPatientWithUser)
  have h2: "\<not> (50 \<le> sub_heartRate (example_submission 150 (Some ''normal''))
         \<and> sub_heartRate (example_submission 150 (Some ''normal'')) \<le> 120
         \<and> sub_rhythm (example_submission 150 (Some ''normal'')) = Some ''normal'')"
    by (simp add: example_submission_def)
  have h3: "fits_integer (sub_heartRate (example_submission 150 (Some ''normal'')))"
    by (simp add: example_submission_def fits_integer_def)
  have d: "alert_decision 150 (Some ''normal'') None = (''high_heart_rate'', Critical)"
    by (simp add: alert_decision_def or_number_def)
  show ?thesis
    unfolding ecg_submit_abnormal [OF h1 h2 h3]
    by (simp add: Let_def health_alert_row_def sendNotifications_def example_getAlertSettings
        example_submission_def d)
qed

text \<open>
  Claim C3, amended: with default settings (no settings row, or a row holding 120 and 50)
  and rhythm normal, heart rates 150 and 145 are both a high heart rate of severity
  critical; 140, the boundary, is a high heart rate of severity high.
\<close>

theorem default_settings_150_145_critical:
  "alert_decision 150 (Some ''normal'') None = (''high_heart_rate'', Critical)
   \<and> alert_decision 145 (Some ''normal'') None = (''high_heart_rate'', Critical)
   \<and> alert_decision 150 (Some ''normal'')
        (Some (s\<lparr> settings_highHeartRateThreshold := Some 120,
                  settings_lowHeartRateThreshold := Some 50 \<rparr>)) = (''high_heart_rate'', Critical)
   \<and> alert_decision 145 (Some ''normal'')
        (Some (s\<lparr> settings_highHeartRateThreshold := Some 120,
                  settings_lowHeartRateThreshold := Some 50 \<rparr>)) = (''high_heart_rate'', Critical)
   \<and> alert_decision 140 (Some ''normal'') None = (''high_heart_rate'', High)"
  by (simp add: alert_decision_def or_number_def)

section \<open>The persisted reading\<close>

text \<open>
  Claim C2 says that the persisted reading has isNormal true exactly when its heart rate
  is between 50 and 120 and its rhythm is normal. For a submission without a rhythm and
  with heart rate 80 the handler persists the row (80, normal) with isNormal false and
  alertTriggered true, and creates an alert: isNormal is computed from the absent
  rhythm, the row stores the default.
\<close>

theorem reading_without_rhythm_contradicts_band:
  "ecgReadings (snd (ecg_submit ''r1'' ''a1'' 7 (example_submission 80 None) example_state))
     = [\<lparr> reading_id = ''r1'', reading_patientId = ''p1'', reading_heartRate = 80,
          reading_rhythm = Some ''normal'', reading_ecgData = ''[]'', reading_timestamp = 7,
          reading_isNormal = False, reading_alertTriggered = True \<rparr>]
   \<and> length (healthAlerts (snd (ecg_submit ''r1'' ''a1'' 7 (example_submission 80 None)
                                   example_state)))
       = Suc (length (healthAlerts example_state))"
proof -
  have h1: "getPatientWithUser example_state (sub_patientId (example_submission 80 None))
     = Some (example_patient, example_user)"
    by (simp add: example_submission_def example_getPatientWithUser)
  have h2: "\<not> (50 \<le> sub_heartRate (example_submission 80 None)
         \<and> sub_heartRate (example_submission 80 None) \<le> 120
         \<and> sub_rhythm (example_submission 80 None) = Some ''normal'')"
    by (simp add: example_submission_def)
  have h3: "fits_integer (sub_heartRate (example_submission 80 None))"
    by (simp add: example_submission_def fits_integer_def)
  have st: "ecgReadings example_state = []"
    by (simp add: example_state_def)
  show ?thesis
    unfolding ecg_submit_abnormal [OF h1 h2 h3]
    by (simp add: Let_def sendNotifications_def ecg_reading_row_def example_submission_def
        or_string_def st)
qed

text \<open>
  When the rhythm is submitted and not empty, the persisted row is as Claim C2 says.
\<close>

lemma submit_reading_given_rhythm:
  assumes "getPatientWithUser st (sub_patientId body) = Some p"
    and "fits_integer (sub_heartRate body)"
    and "sub_rhythm body = Some rhythm" and "rhythm \<noteq> []"
  shows "\<exists>r. fst (ecg_submit rid aid now body st) = Json_success_reading r
           \<and> ecgReadings (snd (ecg_submit rid aid now body st)) = ecgReadings st @ [r]
           \<and> reading_heartRate r = sub_heartRate body
           \<and> reading_rhythm r = Some rhythm
           \<and> reading_isNormal r = (50 \<le> reading_heartRate r \<and> reading_heartRate r \<le> 120
                                     \<and> reading_rhythm r = Some ''normal'')
           \<and> reading_alertTriggered r = (\<not> reading_isNormal r)
           \<and> (reading_isNormal r \<longrightarrow>
                 healthAlerts (snd (ecg_submit rid aid now body st)) = healthAlerts st)"
proof (cases "50 \<le> sub_heartRate body \<and> sub_heartRate body \<le> 120
              \<and> sub_rhythm body = Some ''normal''")
  case True
  show ?thesis
    using True assms(3)
    by (simp add: ecg_submit_normal [OF assms(1) True] Let_def ecg_reading_row_def)
next
  case False
  show ?thesis
    using False assms(3,4)
    by (simp add: ecg_submit_abnormal [OF assms(1) False assms(2)] Let_def ecg_reading_row_def
        sendNotifications_def or_string_def)
qed

text \<open>
  Claim C9 says that a submission without a rhythm is processed as if the rhythm were
  normal. The handler stores the rhythm normal in the reading, but classifies with the
  absent value: for heart rate 80 the reading is persisted with isNormal false and
  alertTriggered true, and an irregular-rhythm alert is created whose message ends in
  "Rhythm: undefined". The same submission with the rhythm given as normal is normal and
  creates no alert.
\<close>

theorem absent_rhythm_is_not_normal:
  "map reading_rhythm (ecgReadings (snd (ecg_submit ''r1'' ''a1'' 7 (example_submission 80 None)
                                          example_state))) = [Some ''normal'']
   \<and> map reading_isNormal (ecgReadings (snd (ecg_submit ''r1'' ''a1'' 7 (example_submission 80 None)
                                          example_state))) = [False]
   \<and> map reading_alertTriggered (ecgReadings (snd (ecg_submit ''r1'' ''a1'' 7
                                          (example_submission 80 None) example_state))) = [True]
   \<and> map alert_message (healthAlerts (snd (ecg_submit ''r1'' ''a1'' 7 (example_submission 80 None)
                                          example_state)))
       = [alert_message example_alert, ''IRREGULAR RHYTHM: Heart rate 80 BPM, Rhythm: undefined'']
   \<and> map reading_isNormal (ecgReadings (snd (ecg_submit ''r1'' ''a1'' 7
                                          (example_submission 80 (Some ''normal'')) example_state))) = [True]
   \<and> healthAlerts (snd (ecg_submit ''r1'' ''a1'' 7 (example_submission 80 (Some ''normal''))
                                          example_state)) = [example_alert]"
proof -
  have h1: "getPatientWithUser example_state (sub_patientId (example_submission 80 r))
     = Some (example_patient, example_user)" for r
    by (simp add: example_submission_def example_getPatientWithUser)
  have h2: "\<not> (50 \<le> sub_heartRate (example_submission 80 None)
         \<and> sub_heartRate (example_submission 80 None) \<le> 120
         \<and> sub_rhythm (example_submission 80 None) = Some ''normal'')"
    by (simp add: example_submission_def)
  have h3: "50 \<le> sub_heartRate (example_submission 80 (Some ''normal''))
         \<and> sub_heartRate (example_submission 80 (Some ''normal'')) \<le> 120
         \<and> sub_rhythm (example_submission 80 (Some ''normal'')) = Some ''normal''"
    by (simp add: example_submission_def)
  have h4: "fits_integer (sub_heartRate (example_submission 80 None))"
    by (simp add: example_submission_def fits_integer_def)
  have d: "alert_decision 80 None None = (''irregular_rhythm'', High)"
    by (simp add: alert_decision_def or_number_def)
  have m: "alert_message_template ''irregular_rhythm'' 80 None
             = ''IRREGULAR RHYTHM: Heart rate 80 BPM, Rhythm: undefined''"
    by (simp add: alert_message_template_def toUpperCase_def toUpperCase_char_def
        string_of_int_def string_of_nat.simps digit_char_def string_of_undefined_def)
  have st: "healthAlerts example_state = [example_alert]" "ecgReadings example_state = []"
    by (simp_all add: example_state_def)
  have a: "map reading_rhythm (ecgReadings (snd (ecg_submit ''r1'' ''a1'' 7 (example_submission 80 None)
                                          example_state))) = [Some ''normal'']"
     "map reading_isNormal (ecgReadings (snd (ecg_submit ''r1'' ''a1'' 7 (example_submission 80 None)
                                          example_state))) = [False]"
     "map reading_alertTriggered (ecgReadings (snd (ecg_submit ''r1'' ''a1'' 7
                                          (example_submission 80 None) example_state))) = [True]"
     "map alert_message (healthAlerts (snd (ecg_submit ''r1'' ''a1'' 7 (example_submission 80 None)
                                          example_state)))
       = [alert_message example_alert, ''IRREGULAR RHYTHM: Heart rate 80 BPM, Rhythm: undefined'']"
    unfolding ecg_submit_abnormal [OF h1 h2 h4]
    by (simp_all add: Let_def health_alert_row_def ecg_reading_row_def sendNotifications_def
        example_getAlertSettings example_submission_def d m st or_string_def)
  have b: "map reading_isNormal (ecgReadings (snd (ecg_submit ''r1'' ''a1'' 7
                                          (example_submission 80 (Some ''normal'')) example_state))) = [True]"
     "healthAlerts (snd (ecg_submit ''r1'' ''a1'' 7 (example_submission 80 (Some ''normal''))
                                          example_state)) = [example_alert]"
    unfolding ecg_submit_normal [OF h1 h3]
    by (simp_all add: Let_def ecg_reading_row_def st)
  from a b show ?thesis by (intro conjI)
qed

section \<open>The alert message\<close>

text \<open>
  Claim C4 says that the message starts with the alert type in upper case with every
  underscore replaced by a space. The handler replaces the first underscore only: for a
  heart rate of 150 the message is HIGH HEART_RATE, not HIGH HEART RATE.
\<close>

theorem message_keeps_second_underscore:
  "alert_message (last (healthAlerts (snd (ecg_submit ''r1'' ''a1'' 7
       (example_submission 150 (Some ''normal'')) example_state))))
   = ''HIGH HEART_RATE: Heart rate 150 BPM, Rhythm: normal''"
proof -
  have h1: "getPatientWithUser example_state (sub_patientId (example_submission 150 (Some ''normal'')))
     = Some (example_patient, example_user)"
    by (simp add: example_submission_def example_getPatientWithUser)
  have h2: "\<not> (50 \<le> sub_heartRate (example_submission 150 (Some ''normal''))
         \<and> sub_heartRate (example_submission 150 (Some ''normal'')) \<le> 120
         \<and> sub_rhythm (example_submission 150 (Some ''normal'')) = Some ''normal'')"
    by (simp add: example_submission_def)
  have h3: "fits_integer (sub_heartRate (example_submission 150 (Some ''normal'')))"
    by (simp add: example_submission_def fits_integer_def)
  have d: "alert_decision 150 (Some ''normal'') None = (''high_heart_rate'', Critical)"
    by (simp add: alert_decision_def or_number_def)
  have m: "alert_message_template ''high_heart_rate'' 150 (Some ''normal'')
             = ''HIGH HEART_RATE: Heart rate 150 BPM, Rhythm: normal''"
    by (simp add: alert_message_template_def toUpperCase_def toUpperCase_char_def
        string_of_int_def string_of_nat.simps digit_char_def string_of_undefined_def)
  show ?thesis
    unfolding ecg_submit_abnormal [OF h1 h2 h3]
    by (simp add: Let_def health_alert_row_def sendNotifications_def example_getAlertSettings
        example_submission_def d m)
qed

section \<open>Unknown patient\<close>

text \<open>
  Claim C8. A submission whose patient identifier does not resolve to a patient record is
  answered with status 404 and leaves the whole state as it was: no reading, no alert,
  nothing sent on a socket, no notification call.
\<close>

theorem submit_unknown_patient:
  assumes "getPatientWithUser st (sub_patientId body) = None"
  shows "ecg_submit rid aid now body st = (Status_message 404 ''Patient not found'', st)
     \<and> ecgReadings (snd (ecg_submit rid aid now body st)) = ecgReadings st
     \<and> healthAlerts (snd (ecg_submit rid aid now body st)) = healthAlerts st
     \<and> sent (snd (ecg_submit rid aid now body st)) = sent st
     \<and> notified (snd (ecg_submit rid aid now body st)) = notified st"
  using assms by (simp add: ecg_submit_def Let_def)

theorem submit_unknown_patient_witness:
  "getPatientWithUser example_state (sub_patientId ((example_submission 150 None)\<lparr> sub_patientId := ''p9'' \<rparr>)) = None
   \<and> ecg_submit ''r1'' ''a1'' 7 ((example_submission 150 None)\<lparr> sub_patientId := ''p9'' \<rparr>) example_state
       = (Status_message 404 ''Patient not found'', example_state)"
proof -
  have "''p9'' \<notin> patient_id ` set (patients example_state)"
    by (simp add: example_state_def example_patient_def)
  then have h: "getPatientWithUser example_state
                  (sub_patientId ((example_submission 150 None)\<lparr> sub_patientId := ''p9'' \<rparr>)) = None"
    by (simp add: getPatientWithUser_no_row)
  from submit_unknown_patient [OF h, of "''r1''" "''a1''" 7] h
  show ?thesis by blast
qed

section \<open>Resolving an alert\<close>

lemma update_no_match:
  "\<forall>a \<in> set xs. \<not> P a \<Longrightarrow> map (\<lambda>a. if P a then f a else a) xs = xs"
  by (induction xs) auto

lemma markAlertAsResolved_unknown:
  assumes "alertId \<notin> alert_id ` set (healthAlerts st)"
  shows "markAlertAsResolved now alertId resolvedBy st = Inr st"
proof -
  have "\<forall>a \<in> set (healthAlerts st). \<not> alert_id a = alertId"
    using assms by auto
  then show ?thesis
    using assms by (simp add: markAlertAsResolved_def update_no_match)
qed

lemma markAlertAsResolved_by_user:
  assumes "resolvedBy \<in> set (map user_id (users st))"
  shows "\<exists>st1. markAlertAsResolved now alertId resolvedBy st = Inr st1"
  using assms by (simp add: markAlertAsResolved_def)

lemma markAlertAsResolved_users:
  assumes "markAlertAsResolved now alertId resolvedBy st = Inr st1"
  shows "users st1 = users st"
  using assms by (auto simp add: markAlertAsResolved_def split: if_splits)

lemma markAlertAsResolved_ids:
  assumes "markAlertAsResolved now alertId resolvedBy st = Inr st1"
  shows "map alert_id (healthAlerts st1) = map alert_id (healthAlerts st)"
proof -
  from assms have "healthAlerts st1 =
      map (\<lambda>a. if alert_id a = alertId
               then a\<lparr> alert_isResolved := True, alert_resolvedBy := Some resolvedBy,
                       alert_resolvedAt := Some now \<rparr>
               else a) (healthAlerts st)"
    by (auto simp add: markAlertAsResolved_def split: if_splits)
  then show ?thesis by simp
qed

lemma markAlertAsResolved_row:
  assumes "markAlertAsResolved now alertId resolvedBy st = Inr st1"
    and "a \<in> set (healthAlerts st1)"
    and "alert_id a = alertId"
  shows "alert_isResolved a \<and> alert_resolvedBy a = Some resolvedBy \<and> alert_resolvedAt a = Some now"
proof -
  from assms(1) have rows: "healthAlerts st1 =
      map (\<lambda>a. if alert_id a = alertId
               then a\<lparr> alert_isResolved := True, alert_resolvedBy := Some resolvedBy,
                       alert_resolvedAt := Some now \<rparr>
               else a) (healthAlerts st)"
    by (auto simp add: markAlertAsResolved_def split: if_splits)
  from assms(2) obtain b where b: "b \<in> set (healthAlerts st)"
    and a: "a = (if alert_id b = alertId
                 then b\<lparr> alert_isResolved := True, alert_resolvedBy := Some resolvedBy,
                         alert_resolvedAt := Some now \<rparr>
                 else b)"
    unfolding rows by auto
  show ?thesis
  proof (cases "alert_id b = alertId")
    case True
    with a show ?thesis by simp
  next
    case False
    with a assms(3) show ?thesis by simp
  qed
qed

lemma markAlertAsResolved_keeps_resolved:
  assumes "markAlertAsResolved now alertId resolvedBy st = Inr st1"
    and "i < length (healthAlerts st)" and "alert_isResolved (healthAlerts st ! i)"
  shows "alert_isResolved (healthAlerts st1 ! i)"
proof -
  from assms(1) have rows: "healthAlerts st1 =
      map (\<lambda>a. if alert_id a = alertId
               then a\<lparr> alert_isResolved := True, alert_resolvedBy := Some resolvedBy,
                       alert_resolvedAt := Some now \<rparr>
               else a) (healthAlerts st)"
    by (auto simp add: markAlertAsResolved_def split: if_splits)
  show ?thesis
    using assms(2,3) by (simp add: rows)
qed

lemma resolve_alert_doctor:
  assumes "getUser st sub = Some u" and "user_role u = Role_doctor"
  shows "\<exists>st1. markAlertAsResolved now alertId (user_id u) st = Inr st1
           \<and> resolve_alert now sub alertId st = (Json_success, st1)"
proof -
  have "user_id u \<in> set (map user_id (users st))"
    using assms(1) by (rule getUser_row)
  then obtain st1 where m: "markAlertAsResolved now alertId (user_id u) st = Inr st1"
    using markAlertAsResolved_by_user by blast
  then have "resolve_alert now sub alertId st = (Json_success, st1)"
    using assms by (simp add: resolve_alert_def)
  with m show ?thesis by blast
qed

text \<open>
  Claim C5, as stated: resolving an identifier that is not in the alert table fails with
  NotFound. The update matches no row, the table is unchanged, and the doctor receives
  the success acknowledgment.
\<close>

theorem resolve_unknown_alert_acknowledged:
  "''a9'' \<notin> alert_id ` set (healthAlerts example_state)
   \<and> resolve_alert 9 ''u2'' ''a9'' example_state = (Json_success, example_state)"
proof -
  have unknown: "''a9'' \<notin> alert_id ` set (healthAlerts example_state)"
    by (simp add: example_state_def example_alert_def)
  then have "markAlertAsResolved 9 ''a9'' ''u2'' example_state = Inr example_state"
    by (rule markAlertAsResolved_unknown)
  then have "resolve_alert 9 ''u2'' ''a9'' example_state = (Json_success, example_state)"
    by (simp add: resolve_alert_def example_getUser_doctor example_doctor_def)
  with unknown show ?thesis by (intro conjI)
qed

text \<open>
  Claim C5, amended: for a caller with the doctor role the resolve operation always
  returns the success acknowledgment. When the identifier is not in the table the state
  is unchanged; every row with the identifier ends resolved, with the caller as resolver
  and the time of the call as resolution timestamp; no row is added or removed.
\<close>

theorem resolve_alert_by_doctor:
  assumes "getUser st sub = Some u" and "user_role u = Role_doctor"
  shows "fst (resolve_alert now sub alertId st) = Json_success
     \<and> (alertId \<notin> alert_id ` set (healthAlerts st) \<longrightarrow> snd (resolve_alert now sub alertId st) = st)
     \<and> map alert_id (healthAlerts (snd (resolve_alert now sub alertId st)))
         = map alert_id (healthAlerts st)
     \<and> (\<forall>a \<in> set (healthAlerts (snd (resolve_alert now sub alertId st))).
           alert_id a = alertId \<longrightarrow>
             alert_isResolved a \<and> alert_resolvedBy a = Some (user_id u)
             \<and> alert_resolvedAt a = Some now)"
proof -
  obtain st1 where m: "markAlertAsResolved now alertId (user_id u) st = Inr st1"
    and r: "resolve_alert now sub alertId st = (Json_success, st1)"
    using resolve_alert_doctor [OF assms] by blast
  have a: "alertId \<notin> alert_id ` set (healthAlerts st) \<longrightarrow> st1 = st"
    using m markAlertAsResolved_unknown [of alertId st now "user_id u"] by auto
  have b: "\<forall>a \<in> set (healthAlerts st1).
           alert_id a = alertId \<longrightarrow>
             alert_isResolved a \<and> alert_resolvedBy a = Some (user_id u)
             \<and> alert_resolvedAt a = Some now"
    using markAlertAsResolved_row [OF m] by blast
  show ?thesis
    unfolding r fst_conv snd_conv
    using a b markAlertAsResolved_ids [OF m]
    by (intro conjI) (rule refl)
qed

theorem resolve_alert_by_doctor_witness:
  "getUser example_state ''u2'' = Some example_doctor
   \<and> user_role example_doctor = Role_doctor
   \<and> fst (resolve_alert 9 ''u2'' ''a0'' example_state) = Json_success
   \<and> ''a9'' \<notin> alert_id ` set (healthAlerts example_state)
   \<and> snd (resolve_alert 9 ''u2'' ''a9'' example_state) = example_state
   \<and> healthAlerts (snd (resolve_alert 9 ''u2'' ''a0'' example_state))
       = [example_alert\<lparr> alert_isResolved := True, alert_resolvedBy := Some ''u2'',
                          alert_resolvedAt := Some 9 \<rparr>]"
proof -
  have h1: "getUser example_state ''u2'' = Some example_doctor"
    by (rule example_getUser_doctor)
  have h2: "user_role example_doctor = Role_doctor"
    by (simp add: example_doctor_def)
  have h3: "''a9'' \<notin> alert_id ` set (healthAlerts example_state)"
    by (simp add: example_state_def example_alert_def)
  have rows: "healthAlerts (snd (resolve_alert 9 ''u2'' ''a0'' example_state))
       = [example_alert\<lparr> alert_isResolved := True, alert_resolvedBy := Some ''u2'',
                          alert_resolvedAt := Some 9 \<rparr>]"
  proof -
    have "resolve_alert 9 ''u2'' ''a0'' example_state
            = (case markAlertAsResolved 9 ''a0'' ''u2'' example_state of
                 Inl error \<Rightarrow> (Status_message 500 ''Failed to resolve alert'', example_state)
               | Inr st1 \<Rightarrow> (Json_success, st1))"
      by (simp add: resolve_alert_def h1 h2) (simp add: example_doctor_def)
    then show ?thesis
      by (simp add: markAlertAsResolved_def example_state_def example_alert_def
          example_user_def example_doctor_def example_doctor2_def)
  qed
  from resolve_alert_by_doctor [OF h1 h2, of 9 "''a0''"]
  have a: "fst (resolve_alert 9 ''u2'' ''a0'' example_state) = Json_success"
    by blast
  from resolve_alert_by_doctor [OF h1 h2, of 9 "''a9''"] h3
  have b: "snd (resolve_alert 9 ''u2'' ''a9'' example_state) = example_state"
    by blast
  from h1 h2 a h3 b rows show ?thesis by (intro conjI)
qed

text \<open>
  Claim C6. When both resolvers are users (as the foreign key of the resolver column
  demands), two resolutions of the same identifier are both accepted; afterwards every
  row with that identifier is resolved and carries the second resolver and the second
  timestamp; the rows and their identifiers are the same; and a row that was resolved
  before is resolved after the first and after the second resolution, and after any
  accepted resolution of any identifier. A rejected resolution changes no row.
\<close>

theorem resolve_twice_last_write_wins:
  assumes "r1 \<in> set (map user_id (users st))" and "r2 \<in> set (map user_id (users st))"
  shows "(\<exists>st1 st2.
           markAlertAsResolved t1 alertId r1 st = Inr st1
         \<and> markAlertAsResolved t2 alertId r2 st1 = Inr st2
         \<and> map alert_id (healthAlerts st2) = map alert_id (healthAlerts st)
         \<and> (\<forall>a \<in> set (healthAlerts st2).
               alert_id a = alertId \<longrightarrow>
                 alert_isResolved a \<and> alert_resolvedBy a = Some r2
                 \<and> alert_resolvedAt a = Some t2)
         \<and> (\<forall>i < length (healthAlerts st).
               alert_isResolved (healthAlerts st ! i) \<longrightarrow>
                 alert_isResolved (healthAlerts st1 ! i) \<and> alert_isResolved (healthAlerts st2 ! i)))
     \<and> (\<forall>st3. markAlertAsResolved t3 other r3 st = Inr st3 \<longrightarrow>
           (\<forall>i < length (healthAlerts st).
              alert_isResolved (healthAlerts st ! i) \<longrightarrow> alert_isResolved (healthAlerts st3 ! i)))"
proof -
  obtain st1 where m1: "markAlertAsResolved t1 alertId r1 st = Inr st1"
    using markAlertAsResolved_by_user [OF assms(1)] by blast
  have "users st1 = users st"
    using m1 by (rule markAlertAsResolved_users)
  with assms(2) have "r2 \<in> set (map user_id (users st1))"
    by simp
  then obtain st2 where m2: "markAlertAsResolved t2 alertId r2 st1 = Inr st2"
    using markAlertAsResolved_by_user by blast
  have ids1: "map alert_id (healthAlerts st1) = map alert_id (healthAlerts st)"
    using m1 by (rule markAlertAsResolved_ids)
  have ids2: "map alert_id (healthAlerts st2) = map alert_id (healthAlerts st1)"
    using m2 by (rule markAlertAsResolved_ids)
  have ids: "map alert_id (healthAlerts st2) = map alert_id (healthAlerts st)"
    using ids1 ids2 by simp
  have len: "length (healthAlerts st1) = length (healthAlerts st)"
    using ids1 by (metis length_map)
  have rows: "\<forall>a \<in> set (healthAlerts st2).
               alert_id a = alertId \<longrightarrow>
                 alert_isResolved a \<and> alert_resolvedBy a = Some r2
                 \<and> alert_resolvedAt a = Some t2"
    using markAlertAsResolved_row [OF m2] by blast
  have keep: "\<forall>i < length (healthAlerts st).
               alert_isResolved (healthAlerts st ! i) \<longrightarrow>
                 alert_isResolved (healthAlerts st1 ! i) \<and> alert_isResolved (healthAlerts st2 ! i)"
  proof (intro allI impI)
    fix i
    assume i: "i < length (healthAlerts st)" and r: "alert_isResolved (healthAlerts st ! i)"
    have k1: "alert_isResolved (healthAlerts st1 ! i)"
      using m1 i r by (rule markAlertAsResolved_keeps_resolved)
    have "i < length (healthAlerts st1)"
      using i len by simp
    with m2 have "alert_isResolved (healthAlerts st2 ! i)"
      using k1 by (rule markAlertAsResolved_keeps_resolved)
    with k1 show "alert_isResolved (healthAlerts st1 ! i) \<and> alert_isResolved (healthAlerts st2 ! i)"
      by simp
  qed
  have any: "\<forall>st3. markAlertAsResolved t3 other r3 st = Inr st3 \<longrightarrow>
           (\<forall>i < length (healthAlerts st).
              alert_isResolved (healthAlerts st ! i) \<longrightarrow> alert_isResolved (healthAlerts st3 ! i))"
    using markAlertAsResolved_keeps_resolved by blast
  from m1 m2 ids rows keep
  have "\<exists>st1 st2.
           markAlertAsResolved t1 alertId r1 st = Inr st1
         \<and> markAlertAsResolved t2 alertId r2 st1 = Inr st2
         \<and> map alert_id (healthAlerts st2) = map alert_id (healthAlerts st)
         \<and> (\<forall>a \<in> set (healthAlerts st2).
               alert_id a = alertId \<longrightarrow>
                 alert_isResolved a \<and> alert_resolvedBy a = Some r2
                 \<and> alert_resolvedAt a = Some t2)
         \<and> (\<forall>i < length (healthAlerts st).
               alert_isResolved (healthAlerts st ! i) \<longrightarrow>
                 alert_isResolved (healthAlerts st1 ! i) \<and> alert_isResolved (healthAlerts st2 ! i))"
    by blast
  with any show ?thesis by (intro conjI)
qed

theorem resolve_twice_last_write_wins_witness:
  "''u2'' \<in> set (map user_id (users example_state))
   \<and> ''u3'' \<in> set (map user_id (users example_state))
   \<and> (\<exists>st1 st2.
         markAlertAsResolved 5 ''a0'' ''u2'' example_state = Inr st1
       \<and> markAlertAsResolved 9 ''a0'' ''u3'' st1 = Inr st2
       \<and> healthAlerts st1 = [example_alert\<lparr> alert_isResolved := True,
                                alert_resolvedBy := Some ''u2'', alert_resolvedAt := Some 5 \<rparr>]
       \<and> alert_isResolved (hd (healthAlerts st2))
       \<and> alert_resolvedBy (hd (healthAlerts st2)) = Some ''u3''
       \<and> alert_resolvedAt (hd (healthAlerts st2)) = Some 9)"
proof -
  have u2: "''u2'' \<in> set (map user_id (users example_state))"
    by (simp add: example_state_def example_doctor_def)
  have u3: "''u3'' \<in> set (map user_id (users example_state))"
    by (simp add: example_state_def example_doctor2_def)
  from resolve_twice_last_write_wins [OF u2 u3, of 5 "''a0''" 9]
  have "\<exists>st1 st2.
           markAlertAsResolved 5 ''a0'' ''u2'' example_state = Inr st1
         \<and> markAlertAsResolved 9 ''a0'' ''u3'' st1 = Inr st2
         \<and> map alert_id (healthAlerts st2) = map alert_id (healthAlerts example_state)
         \<and> (\<forall>a \<in> set (healthAlerts st2).
               alert_id a = ''a0'' \<longrightarrow>
                 alert_isResolved a \<and> alert_resolvedBy a = Some ''u3''
                 \<and> alert_resolvedAt a = Some 9)
         \<and> (\<forall>i < length (healthAlerts example_state).
               alert_isResolved (healthAlerts example_state ! i) \<longrightarrow>
                 alert_isResolved (healthAlerts st1 ! i) \<and> alert_isResolved (healthAlerts st2 ! i))"
    by (rule conjunct1)
  then obtain st1 st2 where m1: "markAlertAsResolved 5 ''a0'' ''u2'' example_state = Inr st1"
    and m2: "markAlertAsResolved 9 ''a0'' ''u3'' st1 = Inr st2"
    and ids: "map alert_id (healthAlerts st2) = map alert_id (healthAlerts example_state)"
    and rows: "\<forall>a \<in> set (healthAlerts st2).
               alert_id a = ''a0'' \<longrightarrow>
                 alert_isResolved a \<and> alert_resolvedBy a = Some ''u3''
                 \<and> alert_resolvedAt a = Some 9"
    by blast
  have ex: "map alert_id (healthAlerts example_state) = [''a0'']"
    by (simp add: example_state_def example_alert_def)
  from ids ex obtain a where a: "healthAlerts st2 = [a]" and id: "alert_id a = ''a0''"
    by auto
  with rows have r: "alert_isResolved (hd (healthAlerts st2))"
    "alert_resolvedBy (hd (healthAlerts st2)) = Some ''u3''"
    "alert_resolvedAt (hd (healthAlerts st2)) = Some 9"
    by simp_all
  have "markAlertAsResolved 5 ''a0'' ''u2'' example_state =
          Inr (example_state\<lparr> healthAlerts := [example_alert\<lparr> alert_isResolved := True,
                                alert_resolvedBy := Some ''u2'', alert_resolvedAt := Some 5 \<rparr>] \<rparr>)"
    by (simp add: markAlertAsResolved_def example_state_def example_alert_def
        example_user_def example_doctor_def example_doctor2_def)
  with m1 have first: "healthAlerts st1 = [example_alert\<lparr> alert_isResolved := True,
                                alert_resolvedBy := Some ''u2'', alert_resolvedAt := Some 5 \<rparr>]"
    by auto
  from m1 m2 first r have "\<exists>st1 st2.
         markAlertAsResolved 5 ''a0'' ''u2'' example_state = Inr st1
       \<and> markAlertAsResolved 9 ''a0'' ''u3'' st1 = Inr st2
       \<and> healthAlerts st1 = [example_alert\<lparr> alert_isResolved := True,
                                alert_resolvedBy := Some ''u2'', alert_resolvedAt := Some 5 \<rparr>]
       \<and> alert_isResolved (hd (healthAlerts st2))
       \<and> alert_resolvedBy (hd (healthAlerts st2)) = Some ''u3''
       \<and> alert_resolvedAt (hd (healthAlerts st2)) = Some 9"
    by blast
  with u2 u3 show ?thesis by (intro conjI)
qed

section \<open>The connection registry\<close>

lemma ws_close_wsClients:
  "u \<noteq> [] \<Longrightarrow> wsClients (ws_close ws (Some u) st) = (wsClients st)(u := None)"
  by (simp add: ws_close_def)

lemma ws_error_wsClients:
  "u \<noteq> [] \<Longrightarrow> wsClients (ws_error ws (Some u) st) = (wsClients st)(u := None)"
  by (simp add: ws_error_def)

lemma ws_connection_wsClients:
  "u \<noteq> [] \<Longrightarrow> wsClients (ws_connection ws (Some u) st) = (wsClients st)(u \<mapsto> ws)"
  by (simp add: ws_connection_def)

text \<open>
  Claim C7, as stated: the close or error of a connection removes the registry entry only
  if it still maps to that connection's socket. After socket 1 and then socket 2 have
  registered for u1, the entry maps to socket 2; the close (or the error) of socket 1
  removes it.
\<close>

theorem close_of_older_connection_removes_newer:
  "wsClients (ws_connection 2 (Some ''u1'') (ws_connection 1 (Some ''u1'') example_state)) ''u1''
     = Some 2
   \<and> wsClients (ws_close 1 (Some ''u1'')
        (ws_connection 2 (Some ''u1'') (ws_connection 1 (Some ''u1'') example_state))) ''u1''
     = None
   \<and> wsClients (ws_error 1 (Some ''u1'')
        (ws_connection 2 (Some ''u1'') (ws_connection 1 (Some ''u1'') example_state))) ''u1''
     = None"
  by (simp add: ws_close_wsClients ws_error_wsClients ws_connection_wsClients)

text \<open>
  Claim C7, amended: the close or error of a connection with an identity removes the
  registry entry of that identity whatever socket it maps to, also when a newer
  connection has registered for the identity in the meantime.
\<close>

theorem close_removes_entry_of_identity:
  assumes "u \<noteq> []"
  shows "wsClients (ws_close ws (Some u) st) = (wsClients st)(u := None)
     \<and> wsClients (ws_error ws (Some u) st) = (wsClients st)(u := None)
     \<and> wsClients (ws_close ws (Some u) (ws_connection ws' (Some u) st)) u = None
     \<and> wsClients (ws_error ws (Some u) (ws_connection ws' (Some u) st)) u = None"
  using assms by (simp add: ws_close_wsClients ws_error_wsClients)

theorem close_removes_entry_of_identity_witness:
  "''u1'' \<noteq> []
   \<and> wsClients (ws_close 1 (Some ''u1'') example_state) ''u1'' = None
   \<and> wsClients (ws_close 1 (Some ''u1'') (ws_connection 2 (Some ''u1'') example_state)) ''u1'' = None
   \<and> wsClients (ws_error 1 (Some ''u1'') (ws_connection 2 (Some ''u1'') example_state)) ''u1'' = None"
proof -
  have h: "''u1'' \<noteq> []" by simp
  from close_removes_entry_of_identity [OF h, of 1 example_state 2]
  show ?thesis by simp
qed

end
